theory Spec2Isabelle
  imports Main "HOL-Library.Sublist"
begin

section \<open>Share plugin: data model\<close>

text \<open>
  Shared-module configuration of the enhanced sharing plugin
  (\<^verbatim>\<open>packages/enhanced/src/lib/sharing/SharePlugin.ts\<close>).  A field of a JavaScript
  options object may be missing (\<^verbatim>\<open>undefined\<close>); it is an \<open>option\<close> here, \<open>None\<close> for
  a missing field.  \<^verbatim>\<open>import\<close>, \<^verbatim>\<open>requiredVersion\<close> and \<^verbatim>\<open>version\<close> hold a string or the
  constant \<^verbatim>\<open>false\<close>.
\<close>

datatype string_or_false = StringValue string | FalseValue

record SharedConfig =
  eager :: "bool option"
  "import" :: "string_or_false option"
  packageName :: "string option"
  requiredVersion :: "string_or_false option"
  shareKey :: "string option"
  shareScope :: "string option"
  singleton :: "bool option"
  strictVersion :: "bool option"
  version :: "string_or_false option"

record ConsumesConfig =
  consume_import :: "string_or_false option"
  consume_shareKey :: string
  consume_shareScope :: "string option"
  consume_requiredVersion :: "string_or_false option"
  consume_strictVersion :: "bool option"
  consume_singleton :: "bool option"
  consume_packageName :: "string option"
  consume_eager :: "bool option"

record ProvidesConfig =
  provide_shareKey :: string
  provide_shareScope :: "string option"
  provide_version :: "string_or_false option"
  provide_eager :: "bool option"

text \<open>The errors the modelled code raises.\<close>

datatype error = Error string | TypeError

text \<open>The object literal with no field set.\<close>

definition emptyConfig :: SharedConfig where
  "emptyConfig = \<lparr>eager = None, import = None, packageName = None, requiredVersion = None,
     shareKey = None, shareScope = None, singleton = None, strictVersion = None,
     version = None\<rparr>"

section \<open>JavaScript objects\<close>

text \<open>
  An object is given by the definitions of its properties, in the order they are made (the
  order of an object literal, or of the pairs handed to \<^verbatim>\<open>Object.fromEntries\<close>); a later
  definition of a key replaces the value of an earlier one and keeps its place.
  \<^verbatim>\<open>Object.keys\<close> and \<^verbatim>\<open>Object.entries\<close> list every key once: the array indices first, in
  ascending numeric order, then the other keys in the order of their first definition.
  An array index is the decimal numeral, without leading zeros, of a number below
  4294967295.
\<close>

definition digit :: "nat \<Rightarrow> char" where
  "digit d = ''0123456789'' ! d"

function decimal :: "nat \<Rightarrow> string" where
  "decimal n = (if n < 10 then [digit n] else decimal (n div 10) @ [digit (n mod 10)])"
  by pat_completeness auto
termination
  by (relation "measure id") auto

declare decimal.simps [simp del]

definition isDigit :: "char \<Rightarrow> bool" where
  "isDigit c = (c \<in> set ''0123456789'')"

definition numericValue :: "string \<Rightarrow> nat" where
  "numericValue s = foldl (\<lambda>n c. 10 * n + (of_char c - 48)) 0 s"

definition arrayIndex :: "string \<Rightarrow> nat option" where
  "arrayIndex key =
     (if list_all isDigit key \<and> decimal (numericValue key) = key \<and>
         numericValue key < 4294967295
      then Some (numericValue key) else None)"

definition indexOrder :: "string \<Rightarrow> nat" where
  "indexOrder key = (case arrayIndex key of Some n \<Rightarrow> n | None \<Rightarrow> 0)"

definition ownKeys :: "string list \<Rightarrow> string list" where
  "ownKeys keys =
     (let created = rev (remdups (rev keys))
      in sort_key indexOrder (filter (\<lambda>key. arrayIndex key \<noteq> None) created) @
         filter (\<lambda>key. arrayIndex key = None) created)"

definition ownEntries :: "(string \<times> 'v) list \<Rightarrow> (string \<times> 'v) list" where
  "ownEntries props =
     concat (map (\<lambda>key. case map_of (rev props) key of
                           Some v \<Rightarrow> [(key, v)]
                         | None \<Rightarrow> [])
                 (ownKeys (map fst props)))"

section \<open>Share plugin: the constructor\<close>

text \<open>
  What the \<^verbatim>\<open>normalizeSimple\<close> callback of the constructor receives as \<^verbatim>\<open>item\<close>: a
  string, or an array of strings (the source tests \<^verbatim>\<open>typeof item !== 'string'\<close>).
\<close>

datatype simple_item = ItemString string | ItemArray "string list"

text \<open>
  The first callback handed to \<^verbatim>\<open>parseOptions\<close> (SharePlugin.ts, lines 28 to 41).  The
  helper \<^verbatim>\<open>isRequiredVersion\<close> of \<^verbatim>\<open>./utils\<close> is a parameter.
\<close>

definition normalizeSimple ::
  "(string \<Rightarrow> bool) \<Rightarrow> simple_item \<Rightarrow> string \<Rightarrow> error + SharedConfig" where
  "normalizeSimple isRequiredVersion item key =
     (case item of
        ItemArray _ \<Rightarrow> Inl (Error ''Unexpected array in shared'')
      | ItemString s \<Rightarrow>
          Inr (if s = key \<or> \<not> isRequiredVersion s
               then emptyConfig\<lparr>import := Some (StringValue s)\<rparr>
               else emptyConfig\<lparr>import := Some (StringValue key),
                                requiredVersion := Some (StringValue s)\<rparr>))"

text \<open>
  What the second callback receives, and what the parsed list holds: an options object, or
  a value of another type (a number, a boolean, \<^verbatim>\<open>null\<close> or \<^verbatim>\<open>undefined\<close>), which the
  declared types exclude and JavaScript lets through.  The second callback is
  \<^verbatim>\<open>(item) => item\<close> (line 42).
\<close>

datatype other_value = NumberValue | BooleanValue bool | NullValue | UndefinedValue

datatype options_value = OptionsObject SharedConfig | OtherValue other_value

definition normalizeOptions :: "options_value \<Rightarrow> string \<Rightarrow> options_value" where
  "normalizeOptions item key = item"

text \<open>
  JavaScript's \<^verbatim>\<open>a || key\<close> for a string-valued \<^verbatim>\<open>a\<close>: \<^verbatim>\<open>undefined\<close>, \<^verbatim>\<open>false\<close> and the
  empty string are falsy and give \<^verbatim>\<open>key\<close>.
\<close>

definition shareKeyOr :: "string option \<Rightarrow> string \<Rightarrow> string" where
  "shareKeyOr a key = (case a of Some s \<Rightarrow> (if s \<noteq> [] then s else key) | None \<Rightarrow> key)"

definition importOr :: "string_or_false option \<Rightarrow> string \<Rightarrow> string" where
  "importOr a key =
     (case a of Some (StringValue s) \<Rightarrow> (if s \<noteq> [] then s else key)
              | Some FalseValue \<Rightarrow> key
              | None \<Rightarrow> key)"

text \<open>
  Lines 44 to 57: one single-key object \<^verbatim>\<open>{[key]: {...}}\<close> per parsed entry; the
  object is the pair of its key and its value.
\<close>

definition consumesOf :: "(string \<times> SharedConfig) list \<Rightarrow> (string \<times> ConsumesConfig) list" where
  "consumesOf sharedOptions =
     map (\<lambda>(key, options).
            (key, \<lparr>consume_import = import options,
                   consume_shareKey = shareKeyOr (shareKey options) key,
                   consume_shareScope = shareScope options,
                   consume_requiredVersion = requiredVersion options,
                   consume_strictVersion = strictVersion options,
                   consume_singleton = singleton options,
                   consume_packageName = packageName options,
                   consume_eager = eager options\<rparr>))
         sharedOptions"

text \<open>Lines 58 to 67: the entries whose import is not \<^verbatim>\<open>false\<close>, keyed by \<^verbatim>\<open>options.import || key\<close>.\<close>

definition providesOf :: "(string \<times> SharedConfig) list \<Rightarrow> (string \<times> ProvidesConfig) list" where
  "providesOf sharedOptions =
     map (\<lambda>(key, options).
            (importOr (import options) key,
             \<lparr>provide_shareKey = shareKeyOr (shareKey options) key,
              provide_shareScope = shareScope options,
              provide_version = version options,
              provide_eager = eager options\<rparr>))
         (filter (\<lambda>(key, options). import options \<noteq> Some FalseValue) sharedOptions)"

subsection \<open>The shared declaration and its parser\<close>

text \<open>
  The user's declaration is a list or a mapping.  The value of a key of a mapping is a bare
  string, an array of strings, or a value for the second callback.  An item of a list is a
  bare string, an object (a nested mapping), an array of strings, or a value of another
  type.  A mapping is an object, given by the definitions of its properties.
\<close>

datatype shared_value =
  BareString string | ArrayValue "string list" | Options options_value

datatype shared_item =
  SpecifierItem string | ObjectItem "(string \<times> shared_value) list" | ArrayItem "string list"
  | OtherItem

datatype shared_declaration =
  SharedList "shared_item list" | SharedMapping "(string \<times> shared_value) list"

text \<open>
  Modelled from the spec: \<^verbatim>\<open>parseOptions\<close> of \<^verbatim>\<open>../container/options\<close>, which is not among
  the sources.  The spec (4.1) has the declaration be a list of bare specifiers or a mapping
  from key to a version string or a full options object, and the output be the list of
  \<open>(key, config)\<close> in order; bare string and array entries go through the rule for simple
  entries (the first callback), every other value of a key through the second.  The cases
  the spec leaves open follow the helper as the package carries it: a string item of a list
  is its own key; an item that is an object, arrays among them, is read as a nested
  mapping, an array under its indices; any other item raises
  \<^verbatim>\<open>Error('Unexpected options format')\<close>; the keys of a mapping are visited as
  \<^verbatim>\<open>Object.entries\<close> lists them.  An exception of a callback ends the parse.
\<close>

definition parseEntry ::
  "(simple_item \<Rightarrow> string \<Rightarrow> error + SharedConfig) \<Rightarrow> (options_value \<Rightarrow> string \<Rightarrow> options_value)
     \<Rightarrow> string \<Rightarrow> shared_value \<Rightarrow> error + options_value" where
  "parseEntry simple opts key v =
     (case v of
        BareString s \<Rightarrow>
          (case simple (ItemString s) key of Inl e \<Rightarrow> Inl e | Inr c \<Rightarrow> Inr (OptionsObject c))
      | ArrayValue a \<Rightarrow>
          (case simple (ItemArray a) key of Inl e \<Rightarrow> Inl e | Inr c \<Rightarrow> Inr (OptionsObject c))
      | Options item \<Rightarrow> Inr (opts item key))"

fun parseEntries ::
  "(simple_item \<Rightarrow> string \<Rightarrow> error + SharedConfig) \<Rightarrow> (options_value \<Rightarrow> string \<Rightarrow> options_value)
     \<Rightarrow> (string \<times> shared_value) list \<Rightarrow> error + (string \<times> options_value) list" where
  "parseEntries simple opts [] = Inr []"
| "parseEntries simple opts ((key, v) # rest) =
     (case parseEntry simple opts key v of
        Inl e \<Rightarrow> Inl e
      | Inr c \<Rightarrow>
          (case parseEntries simple opts rest of
             Inl e \<Rightarrow> Inl e
           | Inr items \<Rightarrow> Inr ((key, c) # items)))"

definition parseItem ::
  "(simple_item \<Rightarrow> string \<Rightarrow> error + SharedConfig) \<Rightarrow> (options_value \<Rightarrow> string \<Rightarrow> options_value)
     \<Rightarrow> shared_item \<Rightarrow> error + (string \<times> options_value) list" where
  "parseItem simple opts item =
     (case item of
        SpecifierItem s \<Rightarrow>
          (case simple (ItemString s) s of
             Inl e \<Rightarrow> Inl e
           | Inr c \<Rightarrow> Inr [(s, OptionsObject c)])
      | ObjectItem props \<Rightarrow> parseEntries simple opts (ownEntries props)
      | ArrayItem a \<Rightarrow>
          parseEntries simple opts (zip (map decimal [0 ..< length a]) (map BareString a))
      | OtherItem \<Rightarrow> Inl (Error ''Unexpected options format''))"

fun parseItems ::
  "(simple_item \<Rightarrow> string \<Rightarrow> error + SharedConfig) \<Rightarrow> (options_value \<Rightarrow> string \<Rightarrow> options_value)
     \<Rightarrow> shared_item list \<Rightarrow> error + (string \<times> options_value) list" where
  "parseItems simple opts [] = Inr []"
| "parseItems simple opts (item # rest) =
     (case parseItem simple opts item of
        Inl e \<Rightarrow> Inl e
      | Inr parsed \<Rightarrow>
          (case parseItems simple opts rest of
             Inl e \<Rightarrow> Inl e
           | Inr items \<Rightarrow> Inr (parsed @ items)))"

definition parseOptions ::
  "shared_declaration \<Rightarrow> (simple_item \<Rightarrow> string \<Rightarrow> error + SharedConfig)
     \<Rightarrow> (options_value \<Rightarrow> string \<Rightarrow> options_value)
     \<Rightarrow> error + (string \<times> options_value) list" where
  "parseOptions options simple opts =
     (case options of
        SharedList items \<Rightarrow> parseItems simple opts items
      | SharedMapping props \<Rightarrow> parseEntries simple opts (ownEntries props))"

text \<open>The plugin's options and the object the constructor builds (lines 25 to 72).\<close>

record SharePluginOptions =
  shared :: shared_declaration
  options_shareScope :: "string option"

record SharePlugin =
  this_shareScope :: "string option"
  this_consumes :: "(string \<times> ConsumesConfig) list"
  this_provides :: "(string \<times> ProvidesConfig) list"

definition sharedOptionsOf ::
  "(string \<Rightarrow> bool) \<Rightarrow> shared_declaration \<Rightarrow> error + (string \<times> options_value) list" where
  "sharedOptionsOf isRequiredVersion decl =
     parseOptions decl (normalizeSimple isRequiredVersion) normalizeOptions"

text \<open>
  The constructor reads the properties of each parsed value (\<^verbatim>\<open>options.import\<close> and the
  others, from line 47 on).  Of a number or a boolean every property is \<^verbatim>\<open>undefined\<close>;
  reading a property of \<^verbatim>\<open>null\<close> or \<^verbatim>\<open>undefined\<close> raises a \<open>TypeError\<close>.
\<close>

definition readOptions :: "options_value \<Rightarrow> error + SharedConfig" where
  "readOptions item =
     (case item of
        OptionsObject config \<Rightarrow> Inr config
      | OtherValue NullValue \<Rightarrow> Inl TypeError
      | OtherValue UndefinedValue \<Rightarrow> Inl TypeError
      | OtherValue _ \<Rightarrow> Inr emptyConfig)"

fun readAll :: "(string \<times> options_value) list \<Rightarrow> error + (string \<times> SharedConfig) list" where
  "readAll [] = Inr []"
| "readAll ((key, item) # rest) =
     (case readOptions item of
        Inl e \<Rightarrow> Inl e
      | Inr config \<Rightarrow>
          (case readAll rest of
             Inl e \<Rightarrow> Inl e
           | Inr sharedOptions \<Rightarrow> Inr ((key, config) # sharedOptions)))"

definition SharePlugin_constructor ::
  "(string \<Rightarrow> bool) \<Rightarrow> SharePluginOptions \<Rightarrow> error + SharePlugin" where
  "SharePlugin_constructor isRequiredVersion options =
     (case sharedOptionsOf isRequiredVersion (shared options) of
        Inl e \<Rightarrow> Inl e
      | Inr parsed \<Rightarrow>
          (case readAll parsed of
             Inl e \<Rightarrow> Inl e
           | Inr sharedOptions \<Rightarrow>
               Inr \<lparr>this_shareScope = options_shareScope options,
                    this_consumes = consumesOf sharedOptions,
                    this_provides = providesOf sharedOptions\<rparr>))"

text \<open>
  The parser's output presented as a mapping from each key to its options value: the
  object with these properties, defined in the order of the list.
\<close>

definition asMapping :: "(string \<times> options_value) list \<Rightarrow> shared_declaration" where
  "asMapping out = SharedMapping (map (\<lambda>(key, item). (key, Options item)) out)"

section \<open>Server externals: strings and object keys\<close>

text \<open>
  The string methods of JavaScript that the server code calls.  \<^verbatim>\<open>s.includes(sub)\<close> holds
  when \<open>sub\<close> occurs in \<open>s\<close> as a contiguous run, \<^verbatim>\<open>s.startsWith(p)\<close> when \<open>p\<close> is a
  prefix of \<open>s\<close>, and \<^verbatim>\<open>s.split(sep)\<close> cuts \<open>s\<close> at every occurrence of the one-character
  separator (the empty string splits into one empty piece).
\<close>

definition str_includes :: "string \<Rightarrow> string \<Rightarrow> bool" where
  "str_includes s sub = sublist sub s"

definition str_startsWith :: "string \<Rightarrow> string \<Rightarrow> bool" where
  "str_startsWith s p = prefix p s"

fun str_split :: "char \<Rightarrow> string \<Rightarrow> string list" where
  "str_split sep [] = [[]]"
| "str_split sep (c # cs) =
     (if c = sep then [] # str_split sep cs
      else (case str_split sep cs of
              t # ts \<Rightarrow> (c # t) # ts
            | [] \<Rightarrow> [[c]]))"

text \<open>
  \<^verbatim>\<open>Object.keys(options.shared || {})\<close>: a mapping has its declaration keys, an array its
  indices, a missing declaration no key at all.
\<close>

definition objectKeys :: "shared_declaration option \<Rightarrow> string list" where
  "objectKeys sharedOpt =
     (case sharedOpt of
        None \<Rightarrow> []
      | Some (SharedMapping props) \<Rightarrow> ownKeys (map fst props)
      | Some (SharedList items) \<Rightarrow> map decimal [0 ..< length items])"

text \<open>
  \<^verbatim>\<open>options.shared?.[key]?.import !== false\<close>.  In a mapping the value of the key is read:
  an options object has its import, every other value none.  In an array the item at the
  index is read: an object item has the value of its own key \<^verbatim>\<open>import\<close>, if any, and every
  other item none.  The value last defined for a key is the one the object holds.
\<close>

definition importNotFalse :: "shared_declaration option \<Rightarrow> string \<Rightarrow> bool" where
  "importNotFalse sharedOpt key =
     (case sharedOpt of
        None \<Rightarrow> True
      | Some (SharedMapping props) \<Rightarrow>
          (case map_of (rev props) key of
             Some (Options (OptionsObject config)) \<Rightarrow> import config \<noteq> Some FalseValue
           | _ \<Rightarrow> True)
      | Some (SharedList items) \<Rightarrow>
          (case map_of (zip (map decimal [0 ..< length items]) items) key of
             Some (ObjectItem props) \<Rightarrow>
               map_of (rev props) ''import'' \<noteq> Some (Options (OtherValue (BooleanValue False)))
           | _ \<Rightarrow> True))"

section \<open>Server externals: the plugin options and the externals of the compiler\<close>

text \<open>
  The fields of \<^verbatim>\<open>ModuleFederationPluginOptions\<close> that the server code reads or writes;
  every other field is in the extension of the record.  The field \<^verbatim>\<open>shared\<close> is
  \<open>federation_shared\<close> here.
\<close>

record LibraryOptions =
  library_type :: string
  library_name :: "string option"

record ModuleFederationPluginOptions =
  name :: "string option"
  filename :: "string option"
  library :: "LibraryOptions option"
  federation_shared :: "shared_declaration option"

text \<open>
  \<^verbatim>\<open>configureServerLibraryAndFilename\<close> (lines 72 to 83).  It assigns \<^verbatim>\<open>options.library\<close>,
  then \<^verbatim>\<open>options.filename\<close>; \<^verbatim>\<open>path.basename\<close> of Node is a parameter, and raises a
  \<open>TypeError\<close> when its argument is not a string.  The result is the exception raised, if
  any, and the options object as the call leaves it.
\<close>

definition configureServerLibraryAndFilename ::
  "(string \<Rightarrow> string) \<Rightarrow> 'a ModuleFederationPluginOptions_scheme
     \<Rightarrow> error option \<times> 'a ModuleFederationPluginOptions_scheme" where
  "configureServerLibraryAndFilename basename options =
     (let options1 = options\<lparr>library :=
            Some \<lparr>library_type = ''commonjs-module'', library_name = name options\<rparr>\<rparr>
      in case filename options1 of
           None \<Rightarrow> (Some TypeError, options1)
         | Some f \<Rightarrow> (None, options1\<lparr>filename := Some (basename f)\<rparr>))"

text \<open>
  The context handed to an externals function; only its \<^verbatim>\<open>request\<close> is read, and it may
  be missing.
\<close>

record ctx =
  request :: "string option"

text \<open>
  An asynchronous function settles with a value or is rejected with an error.  An
  externals function may read and change the state \<open>'s\<close> of the build; it returns how it
  settles and the state it leaves.  An entry of the externals array is such a function, a
  string, or another object.
\<close>

datatype outcome = Returned "string option" | Rejected error

datatype 's external =
  ExternalFunction "ctx \<Rightarrow> 's \<Rightarrow> outcome \<times> 's" | ExternalString string | ExternalObject

datatype 's externals =
  ExternalsArray "'s external list" | ExternalsItem "'s external" | ExternalsUndefined

text \<open>Whether an entry is truthy: all are but the empty string.\<close>

definition truthy :: "'s external \<Rightarrow> bool" where
  "truthy e = (case e of ExternalString s \<Rightarrow> s \<noteq> [] | _ \<Rightarrow> True)"

text \<open>
  The function that \<^verbatim>\<open>handleServerExternals\<close> puts in place of the first entry (lines 116
  to 152).  \<^verbatim>\<open>ctx.request && (...)\<close> is false for a missing and for an empty request.
  Calling an original entry that is not a function, and calling \<^verbatim>\<open>startsWith\<close> on the
  \<^verbatim>\<open>undefined\<close> that \<^verbatim>\<open>split(' ')[1]\<close> gives for a result with no space, raise a
  \<open>TypeError\<close>.  The callback is handed to the original function as it is.
\<close>

definition externalsReplacement ::
  "'s external \<Rightarrow> 'a ModuleFederationPluginOptions_scheme \<Rightarrow> ctx \<Rightarrow> 's \<Rightarrow> outcome \<times> 's" where
  "externalsReplacement originalExternals options ctx s =
     (if (case request ctx of
            None \<Rightarrow> False
          | Some r \<Rightarrow>
              r \<noteq> [] \<and>
              (str_includes r ''@module-federation/utilities'' \<or>
               str_includes r ''internal-delegate-hoist'' \<or>
               list_ex (\<lambda>key.
                   importNotFalse (federation_shared options) key \<and> str_includes r key)
                 (objectKeys (federation_shared options)) \<or>
               str_includes r ''@module-federation/dashboard-plugin''))
      then (Returned None, s)
      else
        (case originalExternals of
           ExternalFunction original \<Rightarrow>
             (case original ctx s of
                (Rejected e, s') \<Rightarrow> (Rejected e, s')
              | (Returned None, s') \<Rightarrow> (Returned None, s')
              | (Returned (Some fromNext), s') \<Rightarrow>
                  if fromNext = [] then (Returned None, s')
                  else
                    (case str_split CHR '' '' fromNext of
                       _ # req # _ \<Rightarrow>
                         if str_startsWith req ''next'' \<or> str_startsWith req ''react''
                         then (Returned (Some fromNext), s')
                         else (Returned None, s')
                     | _ \<Rightarrow> (Rejected TypeError, s')))
         | _ \<Rightarrow> (Rejected TypeError, s)))"

text \<open>
  \<^verbatim>\<open>handleServerExternals\<close> (lines 103 to 154), on \<^verbatim>\<open>compiler.options.externals\<close>: when
  that is an array with a truthy first entry, the entry is replaced.
\<close>

definition handleServerExternals ::
  "'s externals \<Rightarrow> 'a ModuleFederationPluginOptions_scheme \<Rightarrow> 's externals" where
  "handleServerExternals externals options =
     (case externals of
        ExternalsArray (originalExternals # rest) \<Rightarrow>
          if truthy originalExternals
          then ExternalsArray
                 (ExternalFunction (externalsReplacement originalExternals options) # rest)
          else externals
      | _ \<Rightarrow> externals)"

section \<open>Dynamic bulk loader\<close>

text \<open>
  The data of the loader, after sections 3 and 6 of the specification: the descriptor of a
  remote, a loaded container with the names it exposes and its \<^verbatim>\<open>get\<close> (which here also
  forces the module to load and gives its value, or the message of the failure), and the
  entries of the error list.
\<close>

record RemoteDescriptor =
  remote_name :: string
  entryUrl :: string
  remote_scope :: "string option"

record 'v RemoteContainer =
  moduleNameList :: "string list"
  container_get :: "string \<Rightarrow> string + 'v"

datatype error_kind = RemoteLoadError | RemoteInitError | ModuleLoadError

record entry_error =
  error_remote :: string
  error_module :: "string option"
  error_kind :: error_kind
  error_message :: string

record 'v load_result =
  loaded :: "(string \<times> 'v) list"
  errors :: "entry_error list"

text \<open>
  The key \<^verbatim>\<open>remoteName/moduleName\<close> of a loaded module; an exposed path \<^verbatim>\<open>./A\<close> of the remote
  \<^verbatim>\<open>app1\<close> has the key \<^verbatim>\<open>app1/A\<close>.
\<close>

definition moduleKey :: "string \<Rightarrow> string \<Rightarrow> string" where
  "moduleKey remoteName moduleName =
     remoteName @ ''/'' @ (if take 2 moduleName = ''./'' then drop 2 moduleName else moduleName)"

text \<open>
  Modelled from the spec: \<^verbatim>\<open>dynamicLoad\<close>, of which the sources hold only the guide listing
  its steps.  Section 4.7: for each entry of the remote map a descriptor is resolved (the
  registry's \<open>resolve\<close> is a parameter, failing with a kind and a message); for every name
  of a resolved container's list the module is loaded; the results are aggregated under
  \<^verbatim>\<open>remoteName/moduleName\<close>.  A remote's or a module's failure is recorded against it and
  the sweep goes on; the function returns the loaded part paired with the list of errors.
  The remotes are swept in the order of the map.
\<close>

fun loadModules :: "string \<Rightarrow> 'v RemoteContainer \<Rightarrow> string list \<Rightarrow> 'v load_result" where
  "loadModules remoteName container [] = \<lparr>loaded = [], errors = []\<rparr>"
| "loadModules remoteName container (moduleName # rest) =
     (let result = loadModules remoteName container rest
      in case container_get container moduleName of
           Inl message \<Rightarrow>
             result\<lparr>errors :=
               \<lparr>error_remote = remoteName, error_module = Some moduleName,
                error_kind = ModuleLoadError, error_message = message\<rparr> # errors result\<rparr>
         | Inr v \<Rightarrow>
             result\<lparr>loaded := (moduleKey remoteName moduleName, v) # loaded result\<rparr>)"

definition loadRemote ::
  "(RemoteDescriptor \<Rightarrow> (error_kind \<times> string) + 'v RemoteContainer)
     \<Rightarrow> string \<times> string \<Rightarrow> 'v load_result" where
  "loadRemote resolve entry =
     (case entry of (remoteName, url) \<Rightarrow>
        (case resolve \<lparr>remote_name = remoteName, entryUrl = url, remote_scope = None\<rparr> of
           Inl (kind, message) \<Rightarrow>
             \<lparr>loaded = [],
              errors = [\<lparr>error_remote = remoteName, error_module = None,
                         error_kind = kind, error_message = message\<rparr>]\<rparr>
         | Inr container \<Rightarrow> loadModules remoteName container (moduleNameList container)))"

fun dynamicLoad ::
  "(RemoteDescriptor \<Rightarrow> (error_kind \<times> string) + 'v RemoteContainer)
     \<Rightarrow> (string \<times> string) list \<Rightarrow> 'v load_result" where
  "dynamicLoad resolve [] = \<lparr>loaded = [], errors = []\<rparr>"
| "dynamicLoad resolve (entry # remoteUrlMap) =
     (let first = loadRemote resolve entry; others = dynamicLoad resolve remoteUrlMap
      in \<lparr>loaded = loaded first @ loaded others, errors = errors first @ errors others\<rparr>)"

section \<open>JavaScript objects: properties\<close>

lemma digit_value: "d < 10 \<Longrightarrow> of_char (digit d) - 48 = d"
proof -
  assume "d < 10"
  then have "d = 0 \<or> d = 1 \<or> d = 2 \<or> d = 3 \<or> d = 4 \<or> d = 5 \<or> d = 6 \<or> d = 7 \<or>
      d = 8 \<or> d = 9"
    by arith
  then show ?thesis
    by (elim disjE) (simp_all add: digit_def)
qed

lemma isDigit_digit: "d < 10 \<Longrightarrow> isDigit (digit d)"
proof -
  assume "d < 10"
  then have "d = 0 \<or> d = 1 \<or> d = 2 \<or> d = 3 \<or> d = 4 \<or> d = 5 \<or> d = 6 \<or> d = 7 \<or>
      d = 8 \<or> d = 9"
    by arith
  then show ?thesis
    by (elim disjE) (simp_all add: digit_def isDigit_def)
qed

lemma numericValue_snoc:
  "numericValue (s @ [c]) = 10 * numericValue s + (of_char c - 48)"
  by (simp add: numericValue_def)

lemma numericValue_decimal: "numericValue (decimal n) = n"
proof (induction n rule: decimal.induct)
  case (1 n)
  show ?case
  proof (cases "n < 10")
    case True
    then show ?thesis
      using digit_value [of n] by (subst decimal.simps) (simp add: numericValue_def)
  next
    case False
    then have "numericValue (decimal n) =
        10 * numericValue (decimal (n div 10)) + (of_char (digit (n mod 10)) - 48)"
      by (subst decimal.simps) (simp add: numericValue_snoc)
    also have "\<dots> = 10 * (n div 10) + n mod 10"
      using 1 False digit_value [of "n mod 10"] by simp
    finally show ?thesis by simp
  qed
qed

lemma digits_decimal: "list_all isDigit (decimal n)"
proof (induction n rule: decimal.induct)
  case (1 n)
  show ?case
  proof (cases "n < 10")
    case True
    then show ?thesis
      by (subst decimal.simps) (simp add: isDigit_digit)
  next
    case False
    with 1 show ?thesis
      by (subst decimal.simps) (simp add: isDigit_digit)
  qed
qed

text \<open>An array index is exactly the decimal numeral of a number below 4294967295.\<close>

lemma arrayIndex_iff: "arrayIndex key = Some n \<longleftrightarrow> key = decimal n \<and> n < 4294967295"
  by (auto simp: arrayIndex_def numericValue_decimal digits_decimal)

lemma set_ownKeys: "set (ownKeys keys) = set keys"
  by (auto simp: ownKeys_def Let_def)

lemma distinct_ownKeys: "distinct (ownKeys keys)"
  by (auto simp: ownKeys_def Let_def)

text \<open>Listing the keys of an object that was built from a listing changes nothing.\<close>

lemma ownKeys_idem: "ownKeys (ownKeys keys) = ownKeys keys"
proof -
  define created where "created = rev (remdups (rev keys))"
  define A where "A = sort_key indexOrder (filter (\<lambda>key. arrayIndex key \<noteq> None) created)"
  define B where "B = filter (\<lambda>key. arrayIndex key = None) created"
  have eq: "ownKeys keys = A @ B"
    by (simp add: ownKeys_def created_def A_def B_def Let_def)
  have d: "distinct (A @ B)"
    using distinct_ownKeys [of keys] eq by simp
  then have r: "rev (remdups (rev (A @ B))) = A @ B"
    by (metis distinct_remdups_id distinct_rev rev_rev_ident)
  have fa: "filter (\<lambda>key. arrayIndex key \<noteq> None) (A @ B) = A"
    by (auto simp: A_def B_def filter_id_conv filter_empty_conv)
  have fb: "filter (\<lambda>key. arrayIndex key = None) (A @ B) = B"
    by (auto simp: A_def B_def filter_id_conv filter_empty_conv)
  have s: "sort_key indexOrder A = A"
    unfolding A_def by (rule sort_key_id_if_sorted) simp
  have "ownKeys (A @ B) =
      sort_key indexOrder
        (filter (\<lambda>key. arrayIndex key \<noteq> None) (rev (remdups (rev (A @ B))))) @
      filter (\<lambda>key. arrayIndex key = None) (rev (remdups (rev (A @ B))))"
    by (simp only: ownKeys_def Let_def)
  also have "\<dots> = A @ B"
    by (simp only: r fa fb s)
  finally show ?thesis
    by (simp only: eq)
qed

lemma map_fst_ownEntries: "map fst (ownEntries props) = ownKeys (map fst props)"
proof -
  have "\<exists>v. map_of (rev props) key = Some v" if "key \<in> set (ownKeys (map fst props))" for key
  proof -
    from that have "key \<in> fst ` set (rev props)" by (simp add: set_ownKeys)
    then show ?thesis
      by (metis map_of_eq_None_iff not_Some_eq)
  qed
  then have "map fst (concat (map (\<lambda>key. case map_of (rev props) key of
                           Some v \<Rightarrow> [(key, v)] | None \<Rightarrow> []) ks)) = ks"
    if "set ks \<subseteq> set (ownKeys (map fst props))" for ks
    using that by (induction ks) (auto split: option.splits)
  then show ?thesis by (simp add: ownEntries_def)
qed

lemma ownEntries_fixed:
  assumes "ownKeys (map fst xs) = map fst xs"
  shows "ownEntries xs = xs"
proof -
  have d: "distinct (map fst xs)"
    using distinct_ownKeys [of "map fst xs"] assms by simp
  have "concat (map (\<lambda>key. case map_of (rev xs) key of
                           Some v \<Rightarrow> [(key, v)] | None \<Rightarrow> []) (map fst ys)) = ys"
    if "set ys \<subseteq> set xs" for ys
    using that
  proof (induction ys)
    case Nil
    then show ?case by simp
  next
    case (Cons y ys)
    obtain k v where y: "y = (k, v)" by (cases y)
    with Cons.prems have "(k, v) \<in> set (rev xs)" by simp
    moreover have "distinct (map fst (rev xs))" using d by (simp add: rev_map [symmetric])
    ultimately have "map_of (rev xs) k = Some v" by (rule map_of_is_SomeI [rotated])
    with Cons y show ?case by simp
  qed
  from this [of xs] show ?thesis by (simp add: ownEntries_def assms)
qed

lemma ownEntries_fixed_iff: "ownEntries xs = xs \<longleftrightarrow> ownKeys (map fst xs) = map fst xs"
  using map_fst_ownEntries [of xs] ownEntries_fixed [of xs] by auto

lemma ownEntries_map_values:
  "ownEntries (map (\<lambda>(key, v). (key, f v)) xs) = map (\<lambda>(key, v). (key, f v)) (ownEntries xs)"
proof -
  have k: "map fst (map (\<lambda>(key, v). (key, f v)) xs) = map fst xs"
    by (induction xs) auto
  have m: "map_of (rev (map (\<lambda>(key, v). (key, f v)) xs)) key = map_option f (map_of (rev xs) key)"
    for key
    by (simp add: rev_map map_of_map)
  have "concat (map (\<lambda>key. case map_of (rev (map (\<lambda>(key, v). (key, f v)) xs)) key of
                           Some v \<Rightarrow> [(key, v)] | None \<Rightarrow> []) ks) =
     map (\<lambda>(key, v). (key, f v))
       (concat (map (\<lambda>key. case map_of (rev xs) key of
                           Some v \<Rightarrow> [(key, v)] | None \<Rightarrow> []) ks))" for ks
    by (induction ks) (auto simp: m split: option.splits)
  then show ?thesis
    unfolding ownEntries_def k by simp
qed

text \<open>Facts that evaluate the listing of a concrete object.\<close>

lemma arrayIndex_empty: "arrayIndex [] = None"
  by (simp add: arrayIndex_def numericValue_def decimal.simps)

lemma arrayIndex_not_digit: "\<not> isDigit c \<Longrightarrow> arrayIndex (c # cs) = None"
  by (simp add: arrayIndex_def)

lemma arrayIndex_examples:
  "arrayIndex ''0'' = Some 0" "arrayIndex ''1'' = Some 1" "arrayIndex ''01'' = None"
  by (simp_all add: arrayIndex_def numericValue_def isDigit_def decimal.simps digit_def)

lemmas keys_eval =
  ownKeys_def indexOrder_def arrayIndex_empty arrayIndex_not_digit isDigit_def Let_def

lemmas object_eval = ownEntries_def keys_eval

lemma ownKeys_example:
  "ownKeys [''b'', ''1'', ''a'', ''0'', ''b'', ''01''] = [''0'', ''1'', ''b'', ''a'', ''01'']"
  by (simp add: object_eval arrayIndex_examples)

lemma ownEntries_example:
  "ownEntries [(''b'', 1::nat), (''1'', 2), (''b'', 3)] = [(''1'', 2), (''b'', 3)]"
  by (simp add: object_eval arrayIndex_examples)

section \<open>Share plugin: properties\<close>

subsection \<open>The parser\<close>

lemma parseEntries_options_values:
  "parseEntries simple normalizeOptions
     (map (\<lambda>(key, item). (key, Options item)) out) = Inr out"
  by (induction out) (auto simp: parseEntry_def normalizeOptions_def)

lemma parseEntries_keys:
  "parseEntries simple opts entries = Inr out \<Longrightarrow> map fst out = map fst entries"
  by (induction entries arbitrary: out) (auto split: sum.splits)

lemma parseEntries_error:
  "parseEntries (normalizeSimple isRequiredVersion) opts entries = Inl e \<Longrightarrow>
     e = Error ''Unexpected array in shared''"
  by (induction entries)
    (auto simp: parseEntry_def normalizeSimple_def split: sum.splits shared_value.splits)

lemma parseEntries_array_fails:
  "(key, ArrayValue a) \<in> set entries \<Longrightarrow>
     parseEntries (normalizeSimple isRequiredVersion) opts entries
       = Inl (Error ''Unexpected array in shared'')"
proof (induction entries)
  case Nil
  then show ?case by simp
next
  case (Cons entry entries)
  obtain k v where entry: "entry = (k, v)" by (cases entry)
  show ?case
  proof (cases "parseEntries (normalizeSimple isRequiredVersion) opts (entry # entries)")
    case (Inl e)
    then show ?thesis using parseEntries_error by blast
  next
    case (Inr out)
    with entry obtain c rest where
      head: "parseEntry (normalizeSimple isRequiredVersion) opts k v = Inr c" and
      tail: "parseEntries (normalizeSimple isRequiredVersion) opts entries = Inr rest"
      by (auto split: sum.splits)
    from head have "v \<noteq> ArrayValue a"
      by (auto simp: parseEntry_def normalizeSimple_def)
    with Cons.prems entry have "(key, ArrayValue a) \<in> set entries" by auto
    with Cons.IH tail show ?thesis by simp
  qed
qed

lemma parseItems_error:
  "parseItems (normalizeSimple isRequiredVersion) opts items = Inl e \<Longrightarrow> \<exists>message. e = Error message"
  by (induction items)
    (auto simp: parseItem_def normalizeSimple_def split: sum.splits shared_item.splits
      dest: parseEntries_error)

lemma parseItems_array_fails:
  "ObjectItem props \<in> set items \<Longrightarrow> (key, ArrayValue a) \<in> set (ownEntries props) \<Longrightarrow>
     \<exists>message. parseItems (normalizeSimple isRequiredVersion) opts items = Inl (Error message)"
proof (induction items)
  case Nil
  then show ?case by simp
next
  case (Cons item items)
  show ?case
  proof (cases "parseItems (normalizeSimple isRequiredVersion) opts (item # items)")
    case (Inl e)
    then show ?thesis using parseItems_error by blast
  next
    case (Inr out)
    then obtain parsed rest where
      head: "parseItem (normalizeSimple isRequiredVersion) opts item = Inr parsed" and
      tail: "parseItems (normalizeSimple isRequiredVersion) opts items = Inr rest"
      by (auto split: sum.splits)
    have "item \<noteq> ObjectItem props"
      using head parseEntries_array_fails [OF Cons.prems(2), of isRequiredVersion opts]
      by (auto simp: parseItem_def)
    with Cons.prems have "ObjectItem props \<in> set items" by auto
    with Cons.IH Cons.prems(2) tail show ?thesis by simp
  qed
qed

subsection \<open>Examples of the parser and the constructor\<close>

lemma constructor_number_value_example:
  "map_sum id (map fst \<circ> this_consumes)
     (SharePlugin_constructor (\<lambda>s. take 1 s = ''^'')
        \<lparr>shared = SharedMapping [(''react'', Options (OtherValue NumberValue))],
         options_shareScope = None\<rparr>)
   = Inr [''react'']"
  by (simp add: SharePlugin_constructor_def sharedOptionsOf_def parseOptions_def parseEntry_def
      normalizeOptions_def readOptions_def consumesOf_def object_eval)

lemma constructor_null_value_example:
  "SharePlugin_constructor (\<lambda>s. take 1 s = ''^'')
     \<lparr>shared = SharedMapping [(''react'', Options (OtherValue NullValue))],
      options_shareScope = None\<rparr>
   = Inl TypeError"
  by (simp add: SharePlugin_constructor_def sharedOptionsOf_def parseOptions_def parseEntry_def
      normalizeOptions_def readOptions_def object_eval)

lemma constructor_other_item_example:
  "SharePlugin_constructor (\<lambda>s. take 1 s = ''^'')
     \<lparr>shared = SharedList [SpecifierItem ''react'', OtherItem], options_shareScope = None\<rparr>
   = Inl (Error ''Unexpected options format'')"
  by (simp add: SharePlugin_constructor_def sharedOptionsOf_def parseOptions_def parseItem_def
      normalizeSimple_def)

lemma sharedOptionsOf_nested_object_example:
  "sharedOptionsOf (\<lambda>s. take 1 s = ''^'')
     (SharedList [SpecifierItem ''react'', ObjectItem [(''lodash'', BareString ''^4.0.0'')]])
   = Inr [(''react'', OptionsObject (emptyConfig\<lparr>import := Some (StringValue ''react'')\<rparr>)),
          (''lodash'', OptionsObject (emptyConfig\<lparr>import := Some (StringValue ''lodash''),
             requiredVersion := Some (StringValue ''^4.0.0'')\<rparr>))]"
  by (simp add: sharedOptionsOf_def parseOptions_def parseItem_def parseEntry_def
      normalizeSimple_def object_eval)

lemma sharedOptionsOf_index_key_example:
  "map_sum id (map fst)
     (sharedOptionsOf (\<lambda>s. take 1 s = ''^'')
        (SharedList [SpecifierItem ''b'', SpecifierItem ''1''])) = Inr [''b'', ''1''] \<and>
   map_sum id (map fst)
     (sharedOptionsOf (\<lambda>s. take 1 s = ''^'')
        (asMapping
           [(''b'', OptionsObject (emptyConfig\<lparr>import := Some (StringValue ''b'')\<rparr>)),
            (''1'', OptionsObject (emptyConfig\<lparr>import := Some (StringValue ''1'')\<rparr>))]))
     = Inr [''1'', ''b'']"
  by (simp add: sharedOptionsOf_def parseOptions_def parseItem_def parseEntry_def
      normalizeSimple_def normalizeOptions_def asMapping_def object_eval arrayIndex_examples)

subsection \<open>Bare string entries\<close>

text \<open>
  C1.  For a bare string entry \<open>(key, item)\<close> the callback returns a configuration: when
  the item equals the key or is not a version-range expression, its import is the item and
  it has no requiredVersion; otherwise its import is the key and its requiredVersion is the
  item.
\<close>

theorem normalizeSimple_classifies_string:
  "\<exists>config. normalizeSimple isRequiredVersion (ItemString item) key = Inr config \<and>
     (item = key \<or> \<not> isRequiredVersion item \<longrightarrow>
        import config = Some (StringValue item) \<and> requiredVersion config = None) \<and>
     (\<not> (item = key \<or> \<not> isRequiredVersion item) \<longrightarrow>
        import config = Some (StringValue key) \<and>
        requiredVersion config = Some (StringValue item))"
  by (simp add: normalizeSimple_def emptyConfig_def)

theorem normalizeSimple_classifies_string_witness:
  "\<exists>config. normalizeSimple (\<lambda>s. take 1 s = ''^'') (ItemString ''^18.0.0'') ''react''
       = Inr config \<and>
     import config = Some (StringValue ''react'') \<and>
     requiredVersion config = Some (StringValue ''^18.0.0'')"
  using normalizeSimple_classifies_string
    [of "\<lambda>s. take 1 s = ''^''" "''^18.0.0''" "''react''"]
  by simp

subsection \<open>Provides\<close>

text \<open>
  C2, counterexample.  An entry \<open>react\<close> whose import is the empty string is provided
  under the key \<open>react\<close>, not under its import.
\<close>

theorem providesOf_empty_import_counterexample:
  "map fst (providesOf [(''react'', emptyConfig\<lparr>import := Some (StringValue [])\<rparr>)])
     \<noteq> [[]]"
  by (simp add: providesOf_def importOr_def emptyConfig_def)

text \<open>
  C2, amended.  Every parsed entry contributes, in order, no provides record when its import
  is \<open>false\<close> and otherwise exactly one, keyed by the entry's import when that is a non-empty
  string and by the declaration key when the import is absent or empty; entries that
  resolve to the same import path are all kept.
\<close>

theorem providesOf_one_per_provided_entry:
  "providesOf sharedOptions =
     concat (map (\<lambda>(key, config).
        if import config = Some FalseValue then []
        else [(case import config of
                 Some (StringValue s) \<Rightarrow> if s = [] then key else s
               | _ \<Rightarrow> key,
               \<lparr>provide_shareKey = shareKeyOr (shareKey config) key,
                provide_shareScope = shareScope config,
                provide_version = version config,
                provide_eager = eager config\<rparr>)]) sharedOptions)"
  unfolding providesOf_def importOr_def
  by (induction sharedOptions) (auto split: option.splits string_or_false.splits)

subsection \<open>Consumes\<close>

text \<open>
  C3, counterexample.  An entry \<open>react\<close> whose shareKey is given as the empty string is
  consumed under the shareKey \<open>react\<close>, not under the shareKey given.
\<close>

theorem consumesOf_empty_shareKey_counterexample:
  "map (consume_shareKey \<circ> snd)
     (consumesOf [(''react'', emptyConfig\<lparr>shareKey := Some []\<rparr>)]) \<noteq> [[]]"
  by (simp add: consumesOf_def shareKeyOr_def emptyConfig_def)

text \<open>
  C3, amended.  Every parsed entry \<open>(key, config)\<close>, also one whose import is \<open>false\<close>,
  yields exactly one consumes record, in order, keyed by the declaration key; its shareKey
  is the configured shareKey when that is a non-empty string and the declaration key
  otherwise; import, shareScope, requiredVersion, strictVersion, singleton, packageName
  and eager are copied from the configuration.
\<close>

theorem consumesOf_one_per_entry:
  "consumesOf sharedOptions =
     map (\<lambda>(key, config).
            (key, \<lparr>consume_import = import config,
                   consume_shareKey =
                     (case shareKey config of
                        None \<Rightarrow> key
                      | Some s \<Rightarrow> if s = [] then key else s),
                   consume_shareScope = shareScope config,
                   consume_requiredVersion = requiredVersion config,
                   consume_strictVersion = strictVersion config,
                   consume_singleton = singleton config,
                   consume_packageName = packageName config,
                   consume_eager = eager config\<rparr>))
         sharedOptions"
  unfolding consumesOf_def shareKeyOr_def
  by (rule map_cong) (auto split: option.splits)

subsection \<open>Errors\<close>




subsection \<open>Share scope\<close>

text \<open>
  C5, counterexample.  The entry the parser produces for \<open>react: "^18.0.0"\<close> names no
  shareScope, and neither its consumes record nor its provides record has the shareScope
  \<open>default\<close>: both have none.
\<close>

theorem shareScope_not_defaulted_counterexample:
  "map (consume_shareScope \<circ> snd)
     (consumesOf [(''react'', emptyConfig\<lparr>import := Some (StringValue ''react''),
        requiredVersion := Some (StringValue ''^18.0.0'')\<rparr>)]) = [None] \<and>
   map (provide_shareScope \<circ> snd)
     (providesOf [(''react'', emptyConfig\<lparr>import := Some (StringValue ''react''),
        requiredVersion := Some (StringValue ''^18.0.0'')\<rparr>)]) = [None]"
  by (simp add: consumesOf_def providesOf_def emptyConfig_def)

text \<open>
  C5, amended.  The shareScope is not defaulted: every consumes record and every provides
  record has the shareScope of the entry it is derived from, so a record derived from an
  entry that does not specify shareScope has none (\<open>undefined\<close>), not \<open>default\<close>.
\<close>

theorem shareScope_copied:
  "map (consume_shareScope \<circ> snd) (consumesOf sharedOptions)
     = map (shareScope \<circ> snd) sharedOptions \<and>
   map (provide_shareScope \<circ> snd) (providesOf sharedOptions)
     = map (shareScope \<circ> snd)
         (filter (\<lambda>(key, config). import config \<noteq> Some FalseValue) sharedOptions)"
  by (auto simp: consumesOf_def providesOf_def)

subsection \<open>Share keys\<close>

text \<open>
  C6.  When every declaration key of the parsed list is a non-empty string, every consumes
  record and every provides record has a non-empty shareKey.
\<close>

theorem shareKey_never_empty:
  "\<forall>(key, config) \<in> set sharedOptions. key \<noteq> [] \<Longrightarrow>
     (\<forall>(k, c) \<in> set (consumesOf sharedOptions). consume_shareKey c \<noteq> []) \<and>
     (\<forall>(k, p) \<in> set (providesOf sharedOptions). provide_shareKey p \<noteq> [])"
  by (fastforce simp: consumesOf_def providesOf_def shareKeyOr_def
      split: option.splits if_splits)

theorem shareKey_never_empty_witness:
  "list_all (\<lambda>(k, c). consume_shareKey c \<noteq> [])
     (consumesOf [(''react'', emptyConfig\<lparr>shareKey := Some []\<rparr>),
                  (''lodash'', emptyConfig\<lparr>shareKey := Some ''_''\<rparr>)]) \<and>
   list_all (\<lambda>(k, p). provide_shareKey p \<noteq> [])
     (providesOf [(''react'', emptyConfig\<lparr>shareKey := Some []\<rparr>),
                  (''lodash'', emptyConfig\<lparr>shareKey := Some ''_''\<rparr>)])"
proof -
  have h: "\<forall>(key, config) \<in> set [(''react'', emptyConfig\<lparr>shareKey := Some []\<rparr>),
                  (''lodash'', emptyConfig\<lparr>shareKey := Some ''_''\<rparr>)]. key \<noteq> []"
    by simp
  show ?thesis
    using shareKey_never_empty [OF h] by (simp only: list_all_iff)
qed

subsection \<open>Idempotence\<close>

text \<open>
  C7, counterexample.  The list declaration \<open>["react", "react"]\<close> parses to two pairs with
  the key \<open>react\<close>; the mapping presented from them has that key once, and parsing it
  gives one pair, not the same output.
\<close>

theorem sharedOptionsOf_repeated_key_counterexample:
  "sharedOptionsOf (\<lambda>s. take 1 s = ''^'')
     (SharedList [SpecifierItem ''react'', SpecifierItem ''react''])
     = Inr [(''react'', OptionsObject (emptyConfig\<lparr>import := Some (StringValue ''react'')\<rparr>)),
            (''react'', OptionsObject (emptyConfig\<lparr>import := Some (StringValue ''react'')\<rparr>))] \<and>
   sharedOptionsOf (\<lambda>s. take 1 s = ''^'')
     (asMapping
        [(''react'', OptionsObject (emptyConfig\<lparr>import := Some (StringValue ''react'')\<rparr>)),
         (''react'', OptionsObject (emptyConfig\<lparr>import := Some (StringValue ''react'')\<rparr>))])
     = Inr [(''react'', OptionsObject (emptyConfig\<lparr>import := Some (StringValue ''react'')\<rparr>))]"
  by (simp add: sharedOptionsOf_def parseOptions_def parseItem_def parseEntry_def
      normalizeSimple_def normalizeOptions_def asMapping_def object_eval)

text \<open>
  C7, amended.  For every shared declaration given as a mapping, feeding the parser's
  output back, presented as a mapping from each key to its options object, reproduces the
  same output.  The mapping presented from any list of pairs parses to that list as an
  object lists it, each key once with its last value, array indices first in ascending
  order: so the output of a list declaration is reproduced exactly when its keys are
  pairwise distinct and in that order.
\<close>

theorem sharedOptionsOf_idempotent:
  "(sharedOptionsOf isRequiredVersion (SharedMapping props) = Inr out \<longrightarrow>
      sharedOptionsOf isRequiredVersion (asMapping out) = Inr out) \<and>
   sharedOptionsOf isRequiredVersion (asMapping out') = Inr (ownEntries out') \<and>
   (sharedOptionsOf isRequiredVersion (asMapping out') = Inr out' \<longleftrightarrow>
      distinct (map fst out') \<and> ownKeys (map fst out') = map fst out')"
proof -
  have again: "sharedOptionsOf isRequiredVersion (asMapping xs) = Inr (ownEntries xs)" for xs
    by (simp add: sharedOptionsOf_def parseOptions_def asMapping_def ownEntries_map_values
        parseEntries_options_values)
  have fixed: "ownEntries xs = xs \<longleftrightarrow> distinct (map fst xs) \<and> ownKeys (map fst xs) = map fst xs"
    for xs :: "(string \<times> options_value) list"
    using ownEntries_fixed_iff [of xs] distinct_ownKeys [of "map fst xs"] by auto
  have "sharedOptionsOf isRequiredVersion (asMapping out) = Inr out"
    if "sharedOptionsOf isRequiredVersion (SharedMapping props) = Inr out"
  proof -
    from that have "map fst out = ownKeys (map fst props)"
      by (simp add: sharedOptionsOf_def parseOptions_def parseEntries_keys map_fst_ownEntries)
    then have "ownKeys (map fst out) = map fst out"
      by (simp add: ownKeys_idem)
    then have "ownEntries out = out"
      by (rule ownEntries_fixed)
    with again [of out] show ?thesis by simp
  qed
  with again fixed show ?thesis by auto
qed

theorem sharedOptionsOf_idempotent_witness:
  "sharedOptionsOf (\<lambda>s. take 1 s = ''^'')
     (SharedMapping [(''react'', BareString ''^18.0.0''),
        (''lodash'', Options (OptionsObject (emptyConfig\<lparr>singleton := Some True\<rparr>)))])
     = Inr [(''react'', OptionsObject (emptyConfig\<lparr>import := Some (StringValue ''react''),
               requiredVersion := Some (StringValue ''^18.0.0'')\<rparr>)),
            (''lodash'', OptionsObject (emptyConfig\<lparr>singleton := Some True\<rparr>))] \<and>
   sharedOptionsOf (\<lambda>s. take 1 s = ''^'')
     (asMapping
        [(''react'', OptionsObject (emptyConfig\<lparr>import := Some (StringValue ''react''),
               requiredVersion := Some (StringValue ''^18.0.0'')\<rparr>)),
         (''lodash'', OptionsObject (emptyConfig\<lparr>singleton := Some True\<rparr>))])
     = Inr [(''react'', OptionsObject (emptyConfig\<lparr>import := Some (StringValue ''react''),
               requiredVersion := Some (StringValue ''^18.0.0'')\<rparr>)),
            (''lodash'', OptionsObject (emptyConfig\<lparr>singleton := Some True\<rparr>))]"
proof -
  have h: "sharedOptionsOf (\<lambda>s. take 1 s = ''^'')
     (SharedMapping [(''react'', BareString ''^18.0.0''),
        (''lodash'', Options (OptionsObject (emptyConfig\<lparr>singleton := Some True\<rparr>)))])
     = Inr [(''react'', OptionsObject (emptyConfig\<lparr>import := Some (StringValue ''react''),
               requiredVersion := Some (StringValue ''^18.0.0'')\<rparr>)),
            (''lodash'', OptionsObject (emptyConfig\<lparr>singleton := Some True\<rparr>))]"
    by (simp add: sharedOptionsOf_def parseOptions_def parseEntry_def normalizeSimple_def
        normalizeOptions_def object_eval)
  show ?thesis
    using h sharedOptionsOf_idempotent [THEN conjunct1, rule_format, OF h] by simp
qed

section \<open>Server externals: properties\<close>

subsection \<open>The string functions\<close>

lemma str_includes_iff:
  "str_includes s sub \<longleftrightarrow> (\<exists>before after. s = before @ sub @ after)"
  by (simp add: str_includes_def sublist_def)

lemma str_split_not_empty: "str_split sep s \<noteq> []"
  by (induction s) (auto split: list.splits)

lemma str_split_length: "length (str_split sep s) = Suc (count_list s sep)"
  using str_split_not_empty [of sep]
  by (induction s) (auto split: list.splits)

lemma str_split_pieces: "t \<in> set (str_split sep s) \<Longrightarrow> sep \<notin> set t"
  by (induction s arbitrary: t) (auto split: list.splits if_splits)

lemma str_split_examples:
  "str_split CHR '' '' ''commonjs next/dist'' = [''commonjs'', ''next/dist'']"
  "str_split CHR '' '' ''lodash'' = [''lodash'']"
  "str_split CHR '' '' [] = [[]]"
  by simp_all

lemma objectKeys_array_example:
  "objectKeys (Some (SharedList [SpecifierItem ''react'', SpecifierItem ''lodash''])) = [''0'', ''1'']"
  by (simp add: objectKeys_def decimal.simps digit_def upt_rec)

subsection \<open>Library and filename\<close>

text \<open>
  C10.  For options with a string filename the call raises nothing; afterwards the library
  is \<open>{type: 'commonjs-module', name: options.name}\<close>, the filename is the basename of
  its previous value, and every other field is unchanged.
\<close>

theorem configureServerLibraryAndFilename_frame:
  "filename options = Some f \<Longrightarrow>
     \<exists>options'. configureServerLibraryAndFilename basename options = (None, options') \<and>
       library options' =
         Some \<lparr>library_type = ''commonjs-module'', library_name = name options\<rparr> \<and>
       filename options' = Some (basename f) \<and>
       name options' = name options \<and>
       federation_shared options' = federation_shared options \<and>
       ModuleFederationPluginOptions.more options' = ModuleFederationPluginOptions.more options"
  by (simp add: configureServerLibraryAndFilename_def Let_def)

theorem configureServerLibraryAndFilename_frame_witness:
  "\<exists>options'.
     configureServerLibraryAndFilename (\<lambda>p. rev (takeWhile (\<lambda>c. c \<noteq> CHR ''/'') (rev p)))
       \<lparr>name = Some ''shop'', filename = Some ''static/chunks/remoteEntry.js'',
        library = None, federation_shared = None\<rparr> = (None, options') \<and>
     library options' =
       Some \<lparr>library_type = ''commonjs-module'', library_name = Some ''shop''\<rparr> \<and>
     filename options' = Some ''remoteEntry.js'' \<and>
     name options' = Some ''shop'' \<and>
     federation_shared options' = None"
  using configureServerLibraryAndFilename_frame
    [of "\<lparr>name = Some ''shop'', filename = Some ''static/chunks/remoteEntry.js'',
        library = None, federation_shared = None\<rparr>" "''static/chunks/remoteEntry.js''"
        "\<lambda>p. rev (takeWhile (\<lambda>c. c \<noteq> CHR ''/'') (rev p))"]
  by simp

subsection \<open>The replaced externals function\<close>




section \<open>Dynamic bulk loader: properties\<close>

subsection \<open>Helper lemmas\<close>

lemma loadModules_errors_remote:
  "e \<in> set (errors (loadModules remoteName container names)) \<Longrightarrow> error_remote e = remoteName"
  by (induction names) (auto simp: Let_def split: sum.splits)

lemma loadRemote_errors_remote:
  "e \<in> set (errors (loadRemote resolve (remoteName, url))) \<Longrightarrow> error_remote e = remoteName"
  by (auto simp: loadRemote_def split: sum.splits dest: loadModules_errors_remote)

lemma dynamicLoad_errors_other_remotes:
  "remoteName \<notin> fst ` set remoteUrlMap \<Longrightarrow>
     filter (\<lambda>e. error_remote e = remoteName) (errors (dynamicLoad resolve remoteUrlMap)) = []"
proof (induction remoteUrlMap)
  case Nil
  then show ?case by simp
next
  case (Cons entry remoteUrlMap)
  obtain n u where entry: "entry = (n, u)" by (cases entry)
  with Cons.prems have "n \<noteq> remoteName" by auto
  then have "filter (\<lambda>e. error_remote e = remoteName) (errors (loadRemote resolve (n, u))) = []"
    by (auto simp: filter_empty_conv dest: loadRemote_errors_remote)
  with Cons entry show ?case by (simp add: Let_def)
qed

lemma dynamicLoad_failed_remote:
  assumes "distinct (map fst remoteUrlMap)" "(remoteName, url) \<in> set remoteUrlMap"
    "resolve \<lparr>remote_name = remoteName, entryUrl = url, remote_scope = None\<rparr>
       = Inl (kind, message)"
  shows "filter (\<lambda>e. error_remote e = remoteName) (errors (dynamicLoad resolve remoteUrlMap)) =
     [\<lparr>error_remote = remoteName, error_module = None, error_kind = kind,
       error_message = message\<rparr>]"
  using assms
proof (induction remoteUrlMap)
  case Nil
  then show ?case by simp
next
  case (Cons entry remoteUrlMap)
  obtain n u where entry: "entry = (n, u)" by (cases entry)
  show ?case
  proof (cases "entry = (remoteName, url)")
    case True
    with Cons.prems have "remoteName \<notin> fst ` set remoteUrlMap" by auto
    then have "filter (\<lambda>e. error_remote e = remoteName)
        (errors (dynamicLoad resolve remoteUrlMap)) = []"
      by (rule dynamicLoad_errors_other_remotes)
    with True Cons.prems(3) show ?thesis by (simp add: Let_def loadRemote_def)
  next
    case False
    with Cons.prems have mem: "(remoteName, url) \<in> set remoteUrlMap" by auto
    with Cons.prems entry have "n \<noteq> remoteName" by (auto simp: image_iff)
    then have "filter (\<lambda>e. error_remote e = remoteName)
        (errors (loadRemote resolve (n, u))) = []"
      by (auto simp: filter_empty_conv dest: loadRemote_errors_remote)
    moreover have "filter (\<lambda>e. error_remote e = remoteName)
        (errors (dynamicLoad resolve remoteUrlMap)) =
          [\<lparr>error_remote = remoteName, error_module = None, error_kind = kind,
            error_message = message\<rparr>]"
      using Cons.IH Cons.prems mem by simp
    ultimately show ?thesis using entry by (simp add: Let_def)
  qed
qed

lemma loadModules_loaded:
  "moduleName \<in> set names \<Longrightarrow> container_get container moduleName = Inr v \<Longrightarrow>
     (moduleKey remoteName moduleName, v)
       \<in> set (loaded (loadModules remoteName container names))"
  by (induction names) (auto simp: Let_def split: sum.splits)

lemma loadModules_failed:
  "moduleName \<in> set names \<Longrightarrow> container_get container moduleName = Inl message \<Longrightarrow>
     \<lparr>error_remote = remoteName, error_module = Some moduleName,
      error_kind = ModuleLoadError, error_message = message\<rparr>
       \<in> set (errors (loadModules remoteName container names))"
  by (induction names) (auto simp: Let_def split: sum.splits)

lemma dynamicLoad_keeps_remote:
  "entry \<in> set remoteUrlMap \<Longrightarrow>
     set (loaded (loadRemote resolve entry)) \<subseteq> set (loaded (dynamicLoad resolve remoteUrlMap)) \<and>
     set (errors (loadRemote resolve entry)) \<subseteq> set (errors (dynamicLoad resolve remoteUrlMap))"
  by (induction remoteUrlMap) (auto simp: Let_def)

subsection \<open>Partial failure\<close>



end
